theory Spec2Isabelle
  imports Complex_Main
begin

section \<open>The maxLLM chatbot (src/assit/script.js): data model\<close>

text \<open>
  JavaScript strings are sequences of UTF-16 code units and \<open>s.length\<close> counts them.
  A string is modelled as a HOL \<open>string\<close> with one \<open>char\<close> per code unit, so the
  model covers the strings whose code units are below 256; \<open>length\<close> is \<open>.length\<close>.
  Numbers that the program handles are integers far below \<open>2^53\<close> (lengths,
  millisecond clock readings), where the arithmetic of doubles is exact: they are \<open>int\<close>
  or \<open>nat\<close>.
\<close>

text \<open>An element of \<open>chatHistory\<close>: the object \<open>{ role, content }\<close>.\<close>

record msg =
  role :: string
  content :: string

text \<open>
  A record of the object store \<open>chat_records\<close>, as \<open>addRecordToDb\<close> writes it, with the
  key \<open>id\<close> that the store assigns (\<open>keyPath: 'id', autoIncrement: true\<close>).
\<close>

record chat_record =
  rid :: nat
  r_sessionId :: string
  timestamp :: int
  r_role :: string
  r_content :: string
  model :: string

text \<open>An element of the array that \<open>readAllSessions\<close> resolves with.\<close>

record session_view =
  sv_sessionId :: string
  records :: "chat_record list"

text \<open>
  The values \<open>JSON.parse\<close> can return. \<open>JSON.stringify\<close> and \<open>JSON.parse\<close> are the
  host's: a text kept in \<open>localStorage\<close> is represented by what it parses to
  (\<open>JsonText\<close>), or by the fact that it does not parse (\<open>BadText\<close>), or is the empty
  string (\<open>EmptyText\<close>, which is falsy and does not parse either).
\<close>

datatype json =
    JNull
  | JBool bool
  | JNum int
  | JStr string
  | JArr "json list"
  | JObj "(string \<times> json) list"

datatype stored = EmptyText | BadText | JsonText json

datatype js_error = TypeError | SyntaxError | InvalidStateError | NotFoundError

text \<open>
  The chatbot object together with what it reads and writes outside itself:
  the two \<open>localStorage\<close> slots, the object store of the IndexedDB database, the
  message list and the input box of the page, the requests handed to \<open>fetch\<close> and the
  texts shown by \<open>alert\<close>. \<open>db\<close> is \<open>True\<close> when \<open>this.db\<close> holds the opened
  database and \<open>False\<close> while it is \<open>null\<close>. \<open>chat_records\<close> lists the object
  store in the order of its keys, which is the order a cursor visits, and \<open>next_id\<close> is
  the key the next record gets. \<open>historyContent\<close> is what \<open>renderHistory\<close> last drew
  (\<open>None\<close> before the first call). The elements that \<open>initializeElements\<close> looks
  up are taken to exist, and the styling of the page (element heights, \<open>display\<close>,
  \<open>disabled\<close>, the value of the model selector) is left out.
\<close>

record state =
  apiKey :: "string option"
  currentModel :: string
  chatHistory :: "msg list"
  isLoading :: bool
  db :: bool
  sessionId :: string
  ls_session_id :: "string option"
  ls_data :: "stored option"
  chat_records :: "chat_record list"
  next_id :: nat
  chatMessages :: "msg list"
  messageInput :: string
  requests :: "(string \<times> msg list) list"
  alerts :: "string list"
  historyContent :: "session_view list option"
  historyShown :: bool

definition default_model :: string where
  "default_model = ''deepseek/deepseek-r1:free''"

section \<open>Context window: \<open>buildMessages\<close> and \<open>estimateTokens\<close>\<close>

definition system_message :: msg where
  "system_message =
     \<lparr>role = ''system'', content = ''You are maxLLM, a helpful and friendly AI assistant.''\<rparr>"

text \<open>
  \<open>xs.slice(-n)\<close>: the start index is \<open>max (length xs - n) 0\<close>, which is what the
  truncating subtraction of \<open>nat\<close> computes.
\<close>

definition slice_last :: "nat \<Rightarrow> 'a list \<Rightarrow> 'a list" where
  "slice_last n xs = drop (length xs - n) xs"

definition buildMessages :: "state \<Rightarrow> string \<Rightarrow> msg list" where
  "buildMessages st userContent =
     [system_message] @ slice_last 10 (chatHistory st) @ [\<lparr>role = ''user'', content = userContent\<rparr>]"

text \<open>
  \<open>estimateTokens\<close> guards itself with \<open>try\<close>/\<open>catch\<close>, so its argument is modelled
  with the shapes that make its body throw: something that has no \<open>reduce\<close>
  (\<open>NotAnArray\<close>), and an array with a \<open>null\<close> or \<open>undefined\<close> element (\<open>Nullish\<close>),
  where \<open>m.content\<close> raises a TypeError. The content of an object is a string or is
  missing (\<open>None\<close>); a missing or empty content is falsy and counts 0.
\<close>

datatype js_elem = Nullish | Obj "string option"

datatype js_messages = NotAnArray | Messages "js_elem list"

fun content_length :: "js_elem \<Rightarrow> js_error + nat" where
  "content_length Nullish = Inl TypeError"
| "content_length (Obj None) = Inr 0"
| "content_length (Obj (Some c)) = Inr (if c \<noteq> [] then length c else 0)"

text \<open>The \<open>reduce\<close>, with \<open>acc\<close> for its accumulator \<open>sum\<close>; an exception ends it.\<close>

fun reduce_chars :: "nat \<Rightarrow> js_elem list \<Rightarrow> js_error + nat" where
  "reduce_chars acc [] = Inr acc"
| "reduce_chars acc (m # ms) =
     (case content_length m of
        Inl e \<Rightarrow> Inl e
      | Inr n \<Rightarrow> reduce_chars (acc + n) ms)"

text \<open>The body of the \<open>try\<close> block.\<close>

fun estimateTokens_try :: "js_messages \<Rightarrow> js_error + int" where
  "estimateTokens_try NotAnArray = Inl TypeError"
| "estimateTokens_try (Messages ms) =
     (case reduce_chars 0 ms of
        Inl e \<Rightarrow> Inl e
      | Inr totalChars \<Rightarrow> Inr \<lceil>real totalChars / 4\<rceil>)"

definition estimateTokens :: "js_messages \<Rightarrow> int" where
  "estimateTokens messages =
     (case estimateTokens_try messages of Inl _ \<Rightarrow> 0 | Inr n \<Rightarrow> n)"

text \<open>A message list of the program as the argument of \<open>estimateTokens\<close>.\<close>

definition js_of_msgs :: "msg list \<Rightarrow> js_messages" where
  "js_of_msgs ms = Messages (map (\<lambda>m. Obj (Some (content m))) ms)"

text \<open>The total number of characters of the contents of a message list.\<close>

definition total_chars :: "msg list \<Rightarrow> nat" where
  "total_chars ms = sum_list (map (\<lambda>m. length (content m)) ms)"

section \<open>Session identifier and the two \<open>localStorage\<close> slots\<close>

text \<open>The decimal text of a number, as the template literal \<open>`session-${Date.now()}`\<close> renders it.\<close>

definition digit_char :: "nat \<Rightarrow> char" where
  "digit_char d = ''0123456789'' ! d"

function string_of_nat :: "nat \<Rightarrow> string" where
  "string_of_nat n =
     (if n < 10 then [digit_char n] else string_of_nat (n div 10) @ [digit_char (n mod 10)])"
  by pat_completeness auto
termination
  by (relation "measure id") auto

declare string_of_nat.simps [simp del]

definition string_of_int :: "int \<Rightarrow> string" where
  "string_of_int i = (if i < 0 then CHR ''-'' # string_of_nat (nat (- i)) else string_of_nat (nat i))"

text \<open>
  \<open>startNewSession(force)\<close>; \<open>now\<close> is the reading of \<open>Date.now()\<close>. The empty string
  stands for every falsy \<open>this.sessionId\<close> (it is \<open>undefined\<close> while the constructor runs).
  The return value is \<open>sessionId\<close> of the state returned.
\<close>

definition startNewSession :: "bool \<Rightarrow> int \<Rightarrow> state \<Rightarrow> state" where
  "startNewSession force now st =
     (let newId = ''session-'' @ string_of_int now
      in if force \<or> sessionId st = []
         then st\<lparr>sessionId := newId, ls_session_id := Some newId\<rparr>
         else st)"

definition json_of_msg :: "msg \<Rightarrow> json" where
  "json_of_msg m = JObj [(''role'', JStr (role m)), (''content'', JStr (content m))]"

text \<open>\<open>saveToDatabase\<close>; \<open>ts\<close> is the text of \<open>new Date().toISOString()\<close>.\<close>

definition saveToDatabase :: "string \<Rightarrow> state \<Rightarrow> state" where
  "saveToDatabase ts st =
     st\<lparr>ls_data := Some (JsonText (JObj
         [(''chatHistory'', JArr (map json_of_msg (chatHistory st))),
          (''currentModel'', JStr (currentModel st)),
          (''timestamp'', JStr ts)]))\<rparr>"

text \<open>Truthiness, property access and \<open>||\<close> on parsed values.\<close>

fun truthy :: "json \<Rightarrow> bool" where
  "truthy JNull = False"
| "truthy (JBool b) = b"
| "truthy (JNum n) = (n \<noteq> 0)"
| "truthy (JStr s) = (s \<noteq> [])"
| "truthy (JArr _) = True"
| "truthy (JObj _) = True"

text \<open>\<open>data.k\<close>: a TypeError on \<open>null\<close>, \<open>undefined\<close> (\<open>None\<close>) where there is no such property.\<close>

fun get_prop :: "json \<Rightarrow> string \<Rightarrow> js_error + json option" where
  "get_prop JNull k = Inl TypeError"
| "get_prop (JObj fs) k = Inr (map_of fs k)"
| "get_prop _ k = Inr None"

fun js_or :: "json option \<Rightarrow> json \<Rightarrow> json" where
  "js_or None d = d"
| "js_or (Some v) d = (if truthy v then v else d)"

text \<open>
  The state is typed: an element of \<open>chatHistory\<close> is kept as its two properties
  \<open>role\<close> and \<open>content\<close>, which are strings, and \<open>currentModel\<close> is a string.
  \<open>msg_of_json\<close> reads a parsed object by these two properties, whatever the order of
  its keys and whatever other properties it carries (the program reads no other property
  of a history element; what it passes on of a restored element beyond the two is not
  modelled). A value with no string \<open>role\<close> or no string \<open>content\<close> has no place in
  the typed state.
\<close>

fun msg_of_json :: "json \<Rightarrow> msg option" where
  "msg_of_json (JObj fs) =
     (case (map_of fs ''role'', map_of fs ''content'') of
        (Some (JStr r), Some (JStr c)) \<Rightarrow> Some \<lparr>role = r, content = c\<rparr>
      | _ \<Rightarrow> None)"
| "msg_of_json _ = None"

fun msgs_of_json :: "json \<Rightarrow> msg list option" where
  "msgs_of_json (JArr js) = those (map msg_of_json js)"
| "msgs_of_json _ = None"

text \<open>
  \<open>loadFromDatabase\<close>. Every exception of the body (the SyntaxError of \<open>JSON.parse\<close>,
  the TypeError of \<open>data.chatHistory\<close> on \<open>null\<close>) is caught and leaves the state as it
  is. The result is \<open>None\<close> when the payload parses to a value that the typed state
  cannot hold (a history that is not an array of objects with a string \<open>role\<close> and a
  string \<open>content\<close>, a truthy model that is not a string); \<open>saveToDatabase\<close> writes
  no such payload.
  \<open>addMessageToUI\<close> appends each restored message to the page.
\<close>

definition loadFromDatabase :: "state \<Rightarrow> state option" where
  "loadFromDatabase st =
     (case ls_data st of
        None \<Rightarrow> Some st
      | Some EmptyText \<Rightarrow> Some st
      | Some BadText \<Rightarrow> Some st
      | Some (JsonText data) \<Rightarrow>
          (case get_prop data ''chatHistory'' of
             Inl e \<Rightarrow> Some st
           | Inr h \<Rightarrow>
               (case get_prop data ''currentModel'' of
                  Inl e \<Rightarrow> Some st
                | Inr m \<Rightarrow>
                    (case (msgs_of_json (js_or h (JArr [])), js_or m (JStr default_model)) of
                       (Some hist, JStr mdl) \<Rightarrow>
                         Some (st\<lparr>chatHistory := hist, currentModel := mdl,
                                  chatMessages := chatMessages st @ hist\<rparr>)
                     | _ \<Rightarrow> None))))"

text \<open>
  The constructor up to \<open>loadFromDatabase\<close>, on the storage \<open>w\<close> left by earlier runs
  (its \<open>localStorage\<close> slots and object store); \<open>window_key\<close> is
  \<open>window.MAXLLM_API_KEY\<close>. \<open>initDatabase\<close> only starts the opening of the database:
  its \<open>onsuccess\<close> handler is \<open>initDatabase_onsuccess\<close>.
\<close>

definition new_chatbot :: "string option \<Rightarrow> int \<Rightarrow> state \<Rightarrow> state option" where
  "new_chatbot window_key now w =
     (let st0 = w\<lparr>apiKey := (case window_key of
                                None \<Rightarrow> None
                              | Some k \<Rightarrow> if k \<noteq> [] then Some k else None),
                   currentModel := default_model, chatHistory := [], isLoading := False,
                   db := False, sessionId := [], chatMessages := [], messageInput := [],
                   requests := [], alerts := [], historyContent := None,
                   historyShown := False\<rparr>;
          st1 = (case ls_session_id w of
                   None \<Rightarrow> startNewSession False now st0
                 | Some s \<Rightarrow> if s \<noteq> [] then st0\<lparr>sessionId := s\<rparr>
                             else startNewSession False now st0)
      in loadFromDatabase st1)"

definition initDatabase_onsuccess :: "state \<Rightarrow> state" where
  "initDatabase_onsuccess st = st\<lparr>db := True\<rparr>"

section \<open>Appending turns, clearing, sending\<close>

text \<open>
  \<open>addRecordToDb\<close>; \<open>now\<close> is the reading of \<open>Date.now()\<close>. \<open>ok\<close> says whether the
  store takes the record: an exception of \<open>transaction\<close>, \<open>objectStore\<close> or \<open>add\<close>
  (on a connection that has been closed, say) is caught by the \<open>catch\<close> and ignored,
  and an \<open>add\<close> request that fails later (a full disk) has no handler; in both cases
  nothing is stored and nothing reaches the caller.
\<close>

definition addRecordToDb :: "string \<Rightarrow> string \<Rightarrow> int \<Rightarrow> bool \<Rightarrow> state \<Rightarrow> state" where
  "addRecordToDb rl cnt now ok st =
     (if \<not> db st then st
      else if ok then
        st\<lparr>chat_records := chat_records st @
              [\<lparr>rid = next_id st, r_sessionId = sessionId st, timestamp = now,
                r_role = rl, r_content = cnt, model = currentModel st\<rparr>],
           next_id := Suc (next_id st)\<rparr>
      else st)"

definition addMessage :: "string \<Rightarrow> string \<Rightarrow> int \<Rightarrow> bool \<Rightarrow> state \<Rightarrow> state" where
  "addMessage rl cnt now ok st =
     (let st1 = st\<lparr>chatMessages := chatMessages st @ [\<lparr>role = rl, content = cnt\<rparr>]\<rparr>
      in if rl \<noteq> ''error''
         then addRecordToDb rl cnt now ok
                (st1\<lparr>chatHistory := chatHistory st1 @ [\<lparr>role = rl, content = cnt\<rparr>]\<rparr>)
         else st1)"

definition setLoading :: "bool \<Rightarrow> state \<Rightarrow> state" where
  "setLoading loading st = st\<lparr>isLoading := loading\<rparr>"

text \<open>\<open>clearChat\<close>; \<open>ts\<close> and \<open>now\<close> are the clock readings of the two calls it makes.\<close>

definition clearChat :: "string \<Rightarrow> int \<Rightarrow> state \<Rightarrow> state" where
  "clearChat ts now st =
     startNewSession True now (saveToDatabase ts (st\<lparr>chatMessages := [], chatHistory := []\<rparr>))"

text \<open>
  \<open>String.prototype.trim\<close> removes white space and line terminators at both ends;
  among the code units below 256 these are TAB, LF, VT, FF, CR, SP and NBSP.
\<close>

definition js_space :: "char \<Rightarrow> bool" where
  "js_space c = (of_char c \<in> {9, 10, 11, 12, 13, 32, 160 :: nat})"

definition trim :: "string \<Rightarrow> string" where
  "trim s = rev (dropWhile js_space (rev (dropWhile js_space s)))"

text \<open>
  \<open>sendMessage\<close> runs to its \<open>await\<close> (\<open>sendMessage_begin\<close>) and, when the provider
  has answered or failed, from there to its end (\<open>sendMessage_resume\<close>). The call of
  \<open>fetch\<close> inside \<open>callOpenRouterAPI\<close> happens before the first suspension, so the
  request is logged by \<open>sendMessage_begin\<close>. The status tells where the first part ended:
  at the guard (\<open>Returned\<close>), at the token window (\<open>TooLong\<close>) or at the \<open>await\<close>.
\<close>

datatype send_status = Returned | TooLong | Awaiting

definition sendMessage_begin :: "int \<Rightarrow> bool \<Rightarrow> state \<Rightarrow> state \<times> send_status" where
  "sendMessage_begin now ok st =
     (let message = trim (messageInput st)
      in if message = [] \<or> isLoading st \<or> apiKey st = None \<or> apiKey st = Some []
         then (st, Returned)
         else
           let messages = buildMessages st message;
               tokenCount = estimateTokens (js_of_msgs messages)
           in if tokenCount > 1000
              then (addMessage ''error'' ''CLEAR CHAT'' now ok st, TooLong)
              else
                let st1 = addMessage ''user'' message now ok st;
                    st2 = st1\<lparr>messageInput := []\<rparr>;
                    st3 = setLoading True st2
                in (st3\<lparr>requests := requests st3 @ [(currentModel st3, messages)]\<rparr>, Awaiting))"

text \<open>
  The outcome of \<open>callOpenRouterAPI\<close> is the reply (\<open>Inr\<close>) or the message of the
  error it throws (\<open>Inl\<close>).
\<close>

definition sendMessage_resume :: "string + string \<Rightarrow> int \<Rightarrow> bool \<Rightarrow> string \<Rightarrow> state \<Rightarrow> state" where
  "sendMessage_resume outcome now ok ts st =
     (let st1 = (case outcome of
                   Inr response \<Rightarrow> addMessage ''assistant'' response now ok st
                 | Inl errmsg \<Rightarrow> addMessage ''error'' (''Error: '' @ errmsg) now ok st)
      in saveToDatabase ts (setLoading False st1))"

section \<open>History: \<open>readAllSessions\<close> and \<open>showHistory\<close>\<close>

text \<open>
  \<open>Array.prototype.sort\<close> with a comparator. For a consistent comparator the language
  fixes the result: the sorted order in which elements that compare equal keep their
  order; insertion from the right computes it. A comparator result \<open>NaN\<close> (\<open>None\<close>)
  counts as \<open>0\<close>.
\<close>

definition cmp_le0 :: "int option \<Rightarrow> bool" where
  "cmp_le0 v = (case v of None \<Rightarrow> True | Some d \<Rightarrow> d \<le> 0)"

fun js_insert :: "('a \<Rightarrow> 'a \<Rightarrow> int option) \<Rightarrow> 'a \<Rightarrow> 'a list \<Rightarrow> 'a list" where
  "js_insert cmp x [] = [x]"
| "js_insert cmp x (y # ys) =
     (if cmp_le0 (cmp x y) then x # y # ys else y # js_insert cmp x ys)"

definition js_sort :: "('a \<Rightarrow> 'a \<Rightarrow> int option) \<Rightarrow> 'a list \<Rightarrow> 'a list" where
  "js_sort cmp xs = foldr (js_insert cmp) xs []"

text \<open>\<open>(a,b) => a.timestamp - b.timestamp\<close>\<close>

definition cmp_timestamp :: "chat_record \<Rightarrow> chat_record \<Rightarrow> int option" where
  "cmp_timestamp a b = Some (timestamp a - timestamp b)"

text \<open>\<open>s.records[0]?.timestamp\<close>: \<open>undefined\<close> (\<open>None\<close>) for an empty array.\<close>

definition first_timestamp :: "session_view \<Rightarrow> int option" where
  "first_timestamp s = (case records s of [] \<Rightarrow> None | r # _ \<Rightarrow> Some (timestamp r))"

text \<open>\<open>(a,b) => b.records[0]?.timestamp - a.records[0]?.timestamp\<close>\<close>

definition cmp_first_desc :: "session_view \<Rightarrow> session_view \<Rightarrow> int option" where
  "cmp_first_desc a b =
     (case (first_timestamp b, first_timestamp a) of
        (Some tb, Some ta) \<Rightarrow> Some (tb - ta)
      | _ \<Rightarrow> None)"

text \<open>
  The \<open>Map\<close> named \<open>result\<close>: its entries in insertion order. \<open>map_has\<close>,
  \<open>map_set_empty\<close> and \<open>map_push\<close> are \<open>has\<close>, \<open>set(k, [])\<close> on a new key and
  \<open>get(k).push(rec)\<close>.
\<close>

type_synonym group_map = "(string \<times> chat_record list) list"

definition map_has :: "group_map \<Rightarrow> string \<Rightarrow> bool" where
  "map_has m k = (k \<in> fst ` set m)"

definition map_set_empty :: "group_map \<Rightarrow> string \<Rightarrow> group_map" where
  "map_set_empty m k = m @ [(k, [])]"

fun map_push :: "string \<Rightarrow> chat_record \<Rightarrow> group_map \<Rightarrow> group_map" where
  "map_push k r [] = []"
| "map_push k r ((k', rs) # m) =
     (if k' = k then (k', rs @ [r]) # m else (k', rs) # map_push k r m)"

text \<open>One \<open>onsuccess\<close> event with a cursor on the record \<open>r\<close>.\<close>

definition group_step :: "group_map \<Rightarrow> chat_record \<Rightarrow> group_map" where
  "group_step result r =
     map_push (r_sessionId r) r
       (if \<not> map_has result (r_sessionId r) then map_set_empty result (r_sessionId r) else result)"

text \<open>The \<open>onsuccess\<close> event with no cursor: the value the promise is resolved with.\<close>

definition sessions_of :: "group_map \<Rightarrow> session_view list" where
  "sessions_of result =
     js_sort cmp_first_desc
       (map (\<lambda>(k, rs). \<lparr>sv_sessionId = k, records = js_sort cmp_timestamp rs\<rparr>) result)"

text \<open>
  The traversal of the store in key order, one event per step. \<open>Some k\<close> says that the
  cursor request fails after \<open>k\<close> records have been delivered (\<open>onerror\<close>, which
  resolves with the empty array); \<open>None\<close>, or a \<open>k\<close> that is never reached, that it
  runs to the end.
\<close>

fun cursor_walk :: "nat option \<Rightarrow> group_map \<Rightarrow> chat_record list \<Rightarrow> session_view list" where
  "cursor_walk (Some 0) result rs = []"
| "cursor_walk e result [] = sessions_of result"
| "cursor_walk e result (r # rs) =
     cursor_walk (map_option (\<lambda>k. k - 1) e) (group_step result r) rs"

datatype 'a promise = Resolved 'a | Rejected js_error

text \<open>
  What the scan meets. The executor of the promise calls \<open>this.db.transaction\<close>,
  \<open>tx.objectStore\<close> and \<open>store.openCursor\<close> with no \<open>try\<close> around them: on a
  connection that has been closed, or without the object store, one of them throws
  (\<open>StartThrows\<close>, with the exception). Otherwise the scan starts (\<open>Started\<close>) and
  the cursor request runs as \<open>cursor_walk\<close> describes.
\<close>

datatype scan = StartThrows js_error | Started "nat option"

text \<open>
  \<open>readAllSessions\<close>: an exception in the executor of the promise rejects it. With
  \<open>this.db\<close> \<open>null\<close> that exception is the TypeError of \<open>this.db.transaction\<close>.
\<close>

definition readAllSessions :: "scan \<Rightarrow> state \<Rightarrow> session_view list promise" where
  "readAllSessions sc st =
     (if \<not> db st then Rejected TypeError
      else
        (case sc of
           StartThrows e \<Rightarrow> Rejected e
         | Started cursor_error \<Rightarrow> Resolved (cursor_walk cursor_error [] (chat_records st))))"

text \<open>
  \<open>showHistory\<close>: what the call ends with is \<open>Unavailable\<close> (the alert), the sessions
  handed to \<open>renderHistory\<close>, or the rejection of the promise it awaits.
\<close>

datatype history_result = Unavailable | Shown "session_view list" | Failed js_error

definition renderHistory :: "session_view list \<Rightarrow> state \<Rightarrow> state" where
  "renderHistory sessions st = st\<lparr>historyContent := Some sessions\<rparr>"

definition showHistory :: "scan \<Rightarrow> state \<Rightarrow> state \<times> history_result" where
  "showHistory sc st =
     (if \<not> db st
      then (st\<lparr>alerts := alerts st @ [''History unavailable (database not initialized).'']\<rparr>,
            Unavailable)
      else
        (case readAllSessions sc st of
           Rejected e \<Rightarrow> (st, Failed e)
         | Resolved sessions \<Rightarrow>
             ((renderHistory sessions st)\<lparr>historyShown := True\<rparr>, Shown sessions)))"

text \<open>The session views a call of \<open>showHistory\<close> delivers.\<close>

fun listed :: "history_result \<Rightarrow> session_view list" where
  "listed (Shown sessions) = sessions"
| "listed _ = []"

section \<open>The reconstruction as the specification words it\<close>

text \<open>The distinct elements of a list in the order of their first occurrence.\<close>

fun first_seen :: "'a list \<Rightarrow> 'a list" where
  "first_seen [] = []"
| "first_seen (x # xs) = x # filter (\<lambda>y. y \<noteq> x) (first_seen xs)"

text \<open>
  Group the scan by session in first-seen order, sort each group by timestamp with a
  stable sort, and sort the groups descending by the timestamp of their first record
  (\<open>sort_key\<close> is the stable insertion sort of the library).
\<close>

definition group_of :: "chat_record list \<Rightarrow> string \<Rightarrow> session_view" where
  "group_of scan k =
     \<lparr>sv_sessionId = k, records = sort_key timestamp (filter (\<lambda>r. r_sessionId r = k) scan)\<rparr>"

definition reconstruct_spec :: "chat_record list \<Rightarrow> session_view list" where
  "reconstruct_spec scan =
     sort_key (\<lambda>s. - timestamp (hd (records s)))
       (map (group_of scan) (first_seen (map r_sessionId scan)))"

text \<open>The grouping that the traversal builds, written without the loop.\<close>

definition grouped :: "chat_record list \<Rightarrow> group_map" where
  "grouped xs =
     map (\<lambda>k. (k, filter (\<lambda>r. r_sessionId r = k) xs)) (first_seen (map r_sessionId xs))"

section \<open>Sequences of calls and example states\<close>

text \<open>
  A call \<open>addMessage(role, content)\<close> with the clock reading and the answer of the store
  that it meets, and a sequence of such calls.
\<close>

type_synonym turn = "string \<times> string \<times> int \<times> bool"

fun appendTurns :: "turn list \<Rightarrow> state \<Rightarrow> state" where
  "appendTurns [] st = st"
| "appendTurns ((rl, cnt, now, ok) # calls) st = appendTurns calls (addMessage rl cnt now ok st)"

definition turn_msg :: "turn \<Rightarrow> msg" where
  "turn_msg call = (case call of (rl, cnt, now, ok) \<Rightarrow> \<lparr>role = rl, content = cnt\<rparr>)"

definition error_turn :: "turn \<Rightarrow> bool" where
  "error_turn call = (fst call = ''error'')"

text \<open>A browser that has never run the page, and the chatbot constructed there at time 1.\<close>

definition empty_storage :: state where
  "empty_storage =
     \<lparr>apiKey = None, currentModel = [], chatHistory = [], isLoading = False, db = False,
      sessionId = [], ls_session_id = None, ls_data = None, chat_records = [], next_id = 1,
      chatMessages = [], messageInput = [], requests = [], alerts = [],
      historyContent = None, historyShown = False\<rparr>"

definition example_state :: state where
  "example_state =
     \<lparr>apiKey = Some ''sk-demo'', currentModel = default_model, chatHistory = [],
      isLoading = False, db = False, sessionId = ''session-1'',
      ls_session_id = Some ''session-1'', ls_data = None, chat_records = [], next_id = 1,
      chatMessages = [], messageInput = [], requests = [], alerts = [],
      historyContent = None, historyShown = False\<rparr>"

definition eleven_turns :: "msg list" where
  "eleven_turns =
     [\<lparr>role = ''user'', content = ''q1''\<rparr>, \<lparr>role = ''assistant'', content = ''a1''\<rparr>,
      \<lparr>role = ''user'', content = ''q2''\<rparr>, \<lparr>role = ''assistant'', content = ''a2''\<rparr>,
      \<lparr>role = ''user'', content = ''q3''\<rparr>, \<lparr>role = ''assistant'', content = ''a3''\<rparr>,
      \<lparr>role = ''user'', content = ''q4''\<rparr>, \<lparr>role = ''assistant'', content = ''a4''\<rparr>,
      \<lparr>role = ''user'', content = ''q5''\<rparr>, \<lparr>role = ''assistant'', content = ''a5''\<rparr>,
      \<lparr>role = ''user'', content = ''q6''\<rparr>]"

definition long_history :: "msg list" where
  "long_history = replicate 10 \<lparr>role = ''user'', content = replicate 400 CHR ''a''\<rparr>"

text \<open>
  A store with two sessions; in the later one the clock went back between the two
  writes.
\<close>

definition two_sessions :: "chat_record list" where
  "two_sessions =
     [\<lparr>rid = 1, r_sessionId = ''session-1'', timestamp = 10, r_role = ''user'',
       r_content = ''old'', model = ''m''\<rparr>,
      \<lparr>rid = 2, r_sessionId = ''session-5'', timestamp = 30, r_role = ''user'',
       r_content = ''hi'', model = ''m''\<rparr>,
      \<lparr>rid = 3, r_sessionId = ''session-5'', timestamp = 20, r_role = ''assistant'',
       r_content = ''hello'', model = ''m''\<rparr>]"

definition saved_example :: state where
  "saved_example =
     saveToDatabase ''2025-01-01T00:00:00.000Z''
       (example_state\<lparr>chatHistory := [\<lparr>role = ''user'', content = ''hi''\<rparr>,
                                       \<lparr>role = ''assistant'', content = ''hello''\<rparr>],
                      currentModel := ''openai/gpt-4o''\<rparr>)"

section \<open>Lemmas: the context window\<close>

lemma slice_last_eq_rev_take: "slice_last n xs = rev (take n (rev xs))"
  by (simp add: slice_last_def take_rev)

lemma length_slice_last: "length (slice_last n xs) = min n (length xs)"
  by (simp add: slice_last_def)

lemma reduce_chars_objs:
  "reduce_chars acc (map (\<lambda>m. Obj (Some (content m))) ms) = Inr (acc + total_chars ms)"
  by (induction ms arbitrary: acc) (simp_all add: total_chars_def)

lemma estimateTokens_msgs: "estimateTokens (js_of_msgs ms) = \<lceil>real (total_chars ms) / 4\<rceil>"
  by (simp add: estimateTokens_def js_of_msgs_def reduce_chars_objs)

lemma ceiling_quarter: "\<lceil>real n / 4\<rceil> = (int n + 3) div 4"
proof -
  have "\<lceil>real n / 4\<rceil> = \<lceil>real_of_int (int n) / real_of_int 4\<rceil>" by simp
  also have "\<dots> = - ((- int n) div 4)" by (rule ceiling_divide_eq_div)
  also have "\<dots> = (int n + 3) div 4" by presburger
  finally show ?thesis .
qed

lemma estimateTokens_div: "estimateTokens (js_of_msgs ms) = (int (total_chars ms) + 3) div 4"
  by (simp only: estimateTokens_msgs ceiling_quarter)

section \<open>Lemmas: appending and clearing\<close>

lemma string_of_int_1: "string_of_int 1 = ''1''"
  by (simp add: string_of_int_def string_of_nat.simps digit_char_def)

lemma new_chatbot_example: "new_chatbot (Some ''sk-demo'') 1 empty_storage = Some example_state"
  by (simp add: new_chatbot_def empty_storage_def example_state_def startNewSession_def
      loadFromDatabase_def string_of_int_1 Let_def)

lemma addMessage_error:
  "addMessage ''error'' cnt now ok st =
   st\<lparr>chatMessages := chatMessages st @ [\<lparr>role = ''error'', content = cnt\<rparr>]\<rparr>"
  by (simp add: addMessage_def Let_def)

lemma chatHistory_addRecordToDb: "chatHistory (addRecordToDb rl cnt now ok st) = chatHistory st"
  by (simp add: addRecordToDb_def)

lemma chatHistory_addMessage:
  "chatHistory (addMessage rl cnt now ok st) =
   chatHistory st @ (if rl \<noteq> ''error'' then [\<lparr>role = rl, content = cnt\<rparr>] else [])"
  by (simp add: addMessage_def Let_def chatHistory_addRecordToDb)

lemma chatHistory_appendTurns:
  "chatHistory (appendTurns calls st) =
   chatHistory st @ map turn_msg (filter (\<lambda>call. \<not> error_turn call) calls)"
proof (induction calls arbitrary: st)
  case Nil
  then show ?case by simp
next
  case (Cons call calls)
  obtain rl cnt now ok where call: "call = (rl, cnt, now, ok)" by (cases call)
  show ?case
    by (simp add: call Cons.IH chatHistory_addMessage turn_msg_def error_turn_def)
qed

lemma addMessage_no_db:
  "\<not> db st \<Longrightarrow> db (addMessage rl cnt now ok st) = False
     \<and> chat_records (addMessage rl cnt now ok st) = chat_records st
     \<and> next_id (addMessage rl cnt now ok st) = next_id st"
  by (simp add: addMessage_def Let_def addRecordToDb_def)

lemma appendTurns_no_db:
  "\<not> db st \<Longrightarrow> \<not> db (appendTurns calls st)
     \<and> chat_records (appendTurns calls st) = chat_records st
     \<and> next_id (appendTurns calls st) = next_id st"
proof (induction calls arbitrary: st)
  case Nil
  then show ?case by simp
next
  case (Cons call calls)
  obtain rl cnt now ok where call: "call = (rl, cnt, now, ok)" by (cases call)
  from Cons.prems have "\<not> db (addMessage rl cnt now ok st)"
    by (simp add: addMessage_no_db)
  from Cons.IH [OF this] show ?case
    using Cons.prems by (simp add: call addMessage_no_db)
qed

lemma chatHistory_clearChat: "chatHistory (clearChat ts now st) = []"
  by (simp add: clearChat_def startNewSession_def saveToDatabase_def Let_def)

lemma trim_spaces: "trim ''   '' = []"
  by (simp add: trim_def js_space_def)

lemma trim_hi: "trim '' hi '' = ''hi''"
  by (simp add: trim_def js_space_def)

lemma total_chars_long:
  "total_chars (buildMessages
     (example_state\<lparr>chatHistory := long_history, messageInput := '' hi ''\<rparr>) ''hi'') = 4054"
  by (simp add: total_chars_def buildMessages_def slice_last_def long_history_def
      system_message_def sum_list_replicate)

lemma total_chars_short:
  "total_chars (buildMessages (example_state\<lparr>messageInput := '' hi ''\<rparr>) ''hi'') = 54"
  by (simp add: total_chars_def buildMessages_def slice_last_def example_state_def
      system_message_def)

section \<open>Lemmas: the snapshot\<close>

lemma msgs_of_json_roundtrip: "those (map (msg_of_json \<circ> json_of_msg) h) = Some h"
  by (induction h) (simp_all add: json_of_msg_def)

lemma load_saved:
  assumes "ls_data st' = ls_data (saveToDatabase ts st)"
  shows "loadFromDatabase st' =
     Some (st'\<lparr>chatHistory := chatHistory st,
              currentModel := (if currentModel st \<noteq> [] then currentModel st else default_model),
              chatMessages := chatMessages st' @ chatHistory st\<rparr>)"
  using assms
  by (simp add: loadFromDatabase_def saveToDatabase_def msgs_of_json_roundtrip)

lemma load_absent:
  "ls_data st = None \<or> ls_data st = Some EmptyText \<or> ls_data st = Some BadText
     \<or> ls_data st = Some (JsonText JNull) \<Longrightarrow> loadFromDatabase st = Some st"
  by (auto simp: loadFromDatabase_def)

lemma ls_data_startNewSession: "ls_data (startNewSession f now st) = ls_data st"
  by (simp add: startNewSession_def Let_def)

lemma new_chatbot_fallback:
  assumes "ls_data w = None \<or> ls_data w = Some EmptyText \<or> ls_data w = Some BadText
     \<or> ls_data w = Some (JsonText JNull)"
  shows "\<exists>st. new_chatbot key now w = Some st \<and> chatHistory st = []
     \<and> currentModel st = default_model"
proof -
  define st0 where "st0 = w\<lparr>apiKey := (case key of
                                None \<Rightarrow> None
                              | Some k \<Rightarrow> if k \<noteq> [] then Some k else None),
                   currentModel := default_model, chatHistory := [], isLoading := False,
                   db := False, sessionId := [], chatMessages := [], messageInput := [],
                   requests := [], alerts := [], historyContent := None,
                   historyShown := False\<rparr>"
  define st1 where "st1 = (case ls_session_id w of
                   None \<Rightarrow> startNewSession False now st0
                 | Some s \<Rightarrow> if s \<noteq> [] then st0\<lparr>sessionId := s\<rparr>
                             else startNewSession False now st0)"
  have n: "new_chatbot key now w = loadFromDatabase st1"
    unfolding new_chatbot_def st0_def st1_def Let_def by (rule refl)
  have l: "ls_data st1 = ls_data w"
    by (simp add: st1_def st0_def ls_data_startNewSession split: option.splits)
  have h: "chatHistory st1 = [] \<and> currentModel st1 = default_model"
    by (simp add: st1_def st0_def startNewSession_def Let_def split: option.splits)
  from assms l have "loadFromDatabase st1 = Some st1"
    by (intro load_absent) simp
  with n h show ?thesis by simp
qed

section \<open>Lemmas: the traversal and the two sorts\<close>

lemma set_first_seen: "set (first_seen xs) = set xs"
  by (induction xs) auto

lemma distinct_first_seen: "distinct (first_seen xs)"
  by (induction xs) (auto simp: set_first_seen)

lemma first_seen_snoc:
  "first_seen (ys @ [y]) = first_seen ys @ (if y \<in> set ys then [] else [y])"
  by (induction ys) (auto simp: set_first_seen)

lemma map_push_distinct:
  "distinct (map fst m) \<Longrightarrow>
   map_push k r m = map (\<lambda>(k', rs). (k', if k' = k then rs @ [r] else rs)) m"
proof (induction m)
  case Nil
  then show ?case by simp
next
  case (Cons p m)
  obtain k' rs where p: "p = (k', rs)" by (cases p)
  show ?case
  proof (cases "k' = k")
    case True
    with Cons.prems p have "k \<notin> fst ` set m" by auto
    then have "map (\<lambda>(k', rs). (k', if k' = k then rs @ [r] else rs)) m = m"
      by (intro map_idI) (auto simp: image_iff split: prod.splits)
    with True p show ?thesis by simp
  next
    case False
    with Cons p show ?thesis by simp
  qed
qed

lemma map_fst_grouped: "map fst (grouped xs) = first_seen (map r_sessionId xs)"
  by (simp add: grouped_def comp_def)

lemma group_step_grouped: "group_step (grouped xs) r = grouped (xs @ [r])"
proof -
  have d: "distinct (map fst (grouped xs @ [(r_sessionId r, [])]))"
    if "r_sessionId r \<notin> r_sessionId ` set xs"
    using that by (simp add: map_fst_grouped distinct_first_seen set_first_seen)
  have d0: "distinct (map fst (grouped xs))"
    by (simp add: map_fst_grouped distinct_first_seen)
  have has: "map_has (grouped xs) k \<longleftrightarrow> k \<in> r_sessionId ` set xs" for k
    by (simp add: map_has_def grouped_def image_comp comp_def set_first_seen)
  show ?thesis
  proof (cases "r_sessionId r \<in> r_sessionId ` set xs")
    case True
    then show ?thesis
      using d0 by (simp add: group_step_def has map_push_distinct)
         (auto simp: grouped_def first_seen_snoc)
  next
    case False
    then have e: "filter (\<lambda>x. r_sessionId x = r_sessionId r) xs = []"
      by (force simp: filter_empty_conv image_iff)
    from False show ?thesis
      using d [OF False]
      by (simp add: group_step_def has map_set_empty_def map_push_distinct)
         (auto simp: grouped_def first_seen_snoc e)
  qed
qed

lemma foldl_group_step: "foldl group_step (grouped xs) ys = grouped (xs @ ys)"
proof (induction ys arbitrary: xs)
  case Nil
  then show ?case by simp
next
  case (Cons y ys)
  then show ?case by (simp add: group_step_grouped)
qed

lemma set_js_insert: "set (js_insert cmp x ys) = insert x (set ys)"
  by (induction ys) auto

lemma set_js_sort: "set (js_sort cmp xs) = set xs"
  by (induction xs) (simp_all add: js_sort_def set_js_insert)

lemma js_insert_insort:
  "\<forall>y\<in>set ys. cmp_le0 (cmp x y) = (f x \<le> f y) \<Longrightarrow> js_insert cmp x ys = insort_key f x ys"
  by (induction ys) auto

lemma js_sort_sort_key:
  "\<forall>x\<in>set xs. \<forall>y\<in>set xs. cmp_le0 (cmp x y) = (f x \<le> f y) \<Longrightarrow>
   js_sort cmp xs = sort_key f xs"
proof (induction xs)
  case Nil
  then show ?case by (simp add: js_sort_def)
next
  case (Cons x xs)
  then have ih: "js_sort cmp xs = sort_key f xs" by simp
  have "js_sort cmp (x # xs) = js_insert cmp x (js_sort cmp xs)"
    by (simp add: js_sort_def)
  also have "\<dots> = insort_key f x (js_sort cmp xs)"
    using Cons.prems by (intro js_insert_insort) (simp add: set_js_sort)
  finally show ?case by (simp add: ih)
qed

lemma js_sort_timestamp: "js_sort cmp_timestamp rs = sort_key timestamp rs"
  by (rule js_sort_sort_key) (simp add: cmp_timestamp_def cmp_le0_def)

lemma cmp_first_desc_le:
  "records a \<noteq> [] \<Longrightarrow> records b \<noteq> [] \<Longrightarrow>
   cmp_le0 (cmp_first_desc a b) = (- timestamp (hd (records a)) \<le> - timestamp (hd (records b)))"
  by (cases "records a"; cases "records b")
     (simp_all add: cmp_first_desc_def first_timestamp_def cmp_le0_def)

lemma js_sort_first_desc:
  "\<forall>s\<in>set ss. records s \<noteq> [] \<Longrightarrow>
   js_sort cmp_first_desc ss = sort_key (\<lambda>s. - timestamp (hd (records s))) ss"
  by (rule js_sort_sort_key) (simp add: cmp_first_desc_le)

lemma records_group_of_nonempty:
  "k \<in> r_sessionId ` set scan \<Longrightarrow> records (group_of scan k) \<noteq> []"
proof -
  assume "k \<in> r_sessionId ` set scan"
  then have "filter (\<lambda>r. r_sessionId r = k) scan \<noteq> []"
    by (auto simp: filter_empty_conv)
  then have "length (sort_key timestamp (filter (\<lambda>r. r_sessionId r = k) scan)) \<noteq> 0"
    by simp
  then show ?thesis by (simp add: group_of_def del: length_sort)
qed

lemma sessions_of_grouped: "sessions_of (grouped scan) = reconstruct_spec scan"
proof -
  have m: "map (\<lambda>(k, rs). \<lparr>sv_sessionId = k, records = js_sort cmp_timestamp rs\<rparr>) (grouped scan)
        = map (group_of scan) (first_seen (map r_sessionId scan))"
    by (simp add: grouped_def group_of_def js_sort_timestamp comp_def)
  have ne: "\<forall>s\<in>set (map (group_of scan) (first_seen (map r_sessionId scan))). records s \<noteq> []"
    using records_group_of_nonempty [of _ scan] by (auto simp: set_first_seen)
  show ?thesis
    unfolding sessions_of_def m reconstruct_spec_def
    by (rule js_sort_first_desc [OF ne])
qed

lemma cursor_walk_None: "cursor_walk None result rs = sessions_of (foldl group_step result rs)"
  by (induction rs arbitrary: result) simp_all


lemma grouped_Nil: "grouped [] = []"
  by (simp add: grouped_def)

lemma readAllSessions_complete:
  "db st \<Longrightarrow> readAllSessions (Started None) st = Resolved (reconstruct_spec (chat_records st))"
  using foldl_group_step [of "[]" "chat_records st"]
  by (simp add: readAllSessions_def cursor_walk_None grouped_Nil sessions_of_grouped)

lemma reconstruct_spec_member:
  "s \<in> set (reconstruct_spec scan) \<Longrightarrow>
   s = group_of scan (sv_sessionId s) \<and> sv_sessionId s \<in> r_sessionId ` set scan"
  by (auto simp: reconstruct_spec_def set_first_seen group_of_def)

lemma reconstruct_two_sessions:
  "reconstruct_spec two_sessions =
     [\<lparr>sv_sessionId = ''session-5'', records = [two_sessions ! 2, two_sessions ! 1]\<rparr>,
      \<lparr>sv_sessionId = ''session-1'', records = [two_sessions ! 0]\<rparr>]"
  by (simp add: reconstruct_spec_def group_of_def two_sessions_def)

section \<open>The claims\<close>

text \<open>
  C1, as the code has it. \<open>clearChat\<close> empties the page and the live history, overwrites
  the snapshot slot with a snapshot of the empty history and the current model, and
  replaces the session identifier by \<open>session-<now>\<close> in the object and in its
  \<open>localStorage\<close> slot; a load of the snapshot then gives the empty history. The object
  store is not touched: its records and its next key are what they were.
\<close>

theorem clearChat_effect:
  "clearChat ts now st =
     st\<lparr>chatMessages := [], chatHistory := [],
        ls_data := Some (JsonText (JObj
           [(''chatHistory'', JArr []),
            (''currentModel'', JStr (currentModel st)),
            (''timestamp'', JStr ts)])),
        sessionId := ''session-'' @ string_of_int now,
        ls_session_id := Some (''session-'' @ string_of_int now)\<rparr>
   \<and> chatHistory (clearChat ts now st) = []
   \<and> map_option chatHistory (loadFromDatabase (clearChat ts now st)) = Some []
   \<and> chat_records (clearChat ts now st) = chat_records st
   \<and> next_id (clearChat ts now st) = next_id st"
  by (simp add: clearChat_def startNewSession_def saveToDatabase_def loadFromDatabase_def Let_def
      default_model_def split: json.splits)

text \<open>
  C1 as stated fails: with the database open, one turn appended and the chat then
  cleared, the store still holds the record of that turn.
\<close>

theorem clearChat_store_counterexample:
  "chat_records (clearChat ''2025-01-01T00:00:00.000Z'' 2
      (addMessage ''user'' ''hi'' 1 True (initDatabase_onsuccess example_state))) \<noteq> []"
  by (simp add: clearChat_def startNewSession_def saveToDatabase_def addMessage_def Let_def
      addRecordToDb_def initDatabase_onsuccess_def example_state_def)

text \<open>
  C2. After \<open>clearChat\<close>, any sequence of \<open>addMessage\<close> calls leaves in \<open>chatHistory\<close>
  exactly the (role, content) pairs of the calls whose role is not \<open>error\<close>, in the
  order of the calls; so for a sequence without \<open>error\<close> calls it is the sequence
  itself. A call with role \<open>error\<close> changes the page only: the live history, the two
  \<open>localStorage\<close> slots and the object store stay as they are.
\<close>

theorem appendTurns_live_history:
  "chatHistory (appendTurns calls (clearChat ts now st)) =
     map turn_msg (filter (\<lambda>call. \<not> error_turn call) calls)
   \<and> ((\<forall>call\<in>set calls. \<not> error_turn call) \<longrightarrow>
        chatHistory (appendTurns calls (clearChat ts now st)) = map turn_msg calls)
   \<and> addMessage ''error'' cnt t ok st1 =
        st1\<lparr>chatMessages := chatMessages st1 @ [\<lparr>role = ''error'', content = cnt\<rparr>]\<rparr>
   \<and> chatHistory (addMessage ''error'' cnt t ok st1) = chatHistory st1
   \<and> ls_data (addMessage ''error'' cnt t ok st1) = ls_data st1
   \<and> ls_session_id (addMessage ''error'' cnt t ok st1) = ls_session_id st1
   \<and> chat_records (addMessage ''error'' cnt t ok st1) = chat_records st1
   \<and> next_id (addMessage ''error'' cnt t ok st1) = next_id st1"
proof -
  have a: "chatHistory (appendTurns calls (clearChat ts now st)) =
     map turn_msg (filter (\<lambda>call. \<not> error_turn call) calls)"
    by (simp add: chatHistory_appendTurns chatHistory_clearChat)
  have b: "(\<forall>call\<in>set calls. \<not> error_turn call) \<longrightarrow>
        chatHistory (appendTurns calls (clearChat ts now st)) = map turn_msg calls"
    by (simp add: a)
  show ?thesis
    using a b by (simp add: addMessage_error)
qed

theorem appendTurns_live_history_witness:
  "\<not> error_turn (''user'', ''hi'', 10, True)
   \<and> \<not> error_turn (''assistant'', ''hello'', 20, True)
   \<and> chatHistory (appendTurns [(''user'', ''hi'', 10, True), (''assistant'', ''hello'', 20, True)]
        (clearChat ''2025-01-01T00:00:00.000Z'' 5 example_state)) =
      [\<lparr>role = ''user'', content = ''hi''\<rparr>, \<lparr>role = ''assistant'', content = ''hello''\<rparr>]"
  using appendTurns_live_history
    [of "[(''user'', ''hi'', 10, True), (''assistant'', ''hello'', 20, True)]"
        "''2025-01-01T00:00:00.000Z''" 5 example_state]
  by (simp add: error_turn_def turn_msg_def)

text \<open>
  C3. \<open>buildMessages\<close> is the fixed system message, then the last 10 elements of the
  history in their order (the whole history when it has fewer than 10), then the new
  user turn; it has at most 12 elements, and for a history of 11 turns it is the system
  message, the last 10 of the 11 and the new turn, 12 in all.
\<close>

theorem buildMessages_window:
  "buildMessages st c =
     system_message # rev (take 10 (rev (chatHistory st))) @ [\<lparr>role = ''user'', content = c\<rparr>]
   \<and> (length (chatHistory st) < 10 \<longrightarrow>
        buildMessages st c = system_message # chatHistory st @ [\<lparr>role = ''user'', content = c\<rparr>])
   \<and> length (buildMessages st c) \<le> 12
   \<and> (length (chatHistory st) = 11 \<longrightarrow>
        buildMessages st c = system_message # tl (chatHistory st) @ [\<lparr>role = ''user'', content = c\<rparr>]
        \<and> length (buildMessages st c) = 12)"
proof -
  have a: "buildMessages st c =
      system_message # rev (take 10 (rev (chatHistory st))) @ [\<lparr>role = ''user'', content = c\<rparr>]"
    by (simp add: buildMessages_def slice_last_eq_rev_take)
  have b: "length (chatHistory st) < 10 \<longrightarrow>
      buildMessages st c = system_message # chatHistory st @ [\<lparr>role = ''user'', content = c\<rparr>]"
    by (simp add: buildMessages_def slice_last_def)
  have c: "length (buildMessages st c) \<le> 12"
    by (simp add: buildMessages_def length_slice_last)
  have d: "length (chatHistory st) = 11 \<longrightarrow>
      buildMessages st c = system_message # tl (chatHistory st) @ [\<lparr>role = ''user'', content = c\<rparr>]
      \<and> length (buildMessages st c) = 12"
    by (simp add: buildMessages_def slice_last_def drop_Suc)
  from a b c d show ?thesis by blast
qed

theorem buildMessages_window_witness:
  "length (chatHistory (example_state\<lparr>chatHistory := eleven_turns\<rparr>)) = 11
   \<and> buildMessages (example_state\<lparr>chatHistory := eleven_turns\<rparr>) ''new'' =
       system_message # tl eleven_turns @ [\<lparr>role = ''user'', content = ''new''\<rparr>]
   \<and> length (buildMessages (example_state\<lparr>chatHistory := eleven_turns\<rparr>) ''new'') = 12
   \<and> length (chatHistory (example_state\<lparr>chatHistory := take 2 eleven_turns\<rparr>)) < 10
   \<and> buildMessages (example_state\<lparr>chatHistory := take 2 eleven_turns\<rparr>) ''new'' =
       [system_message, \<lparr>role = ''user'', content = ''q1''\<rparr>,
        \<lparr>role = ''assistant'', content = ''a1''\<rparr>, \<lparr>role = ''user'', content = ''new''\<rparr>]"
  using buildMessages_window [of "example_state\<lparr>chatHistory := eleven_turns\<rparr>" "''new''"]
    buildMessages_window [of "example_state\<lparr>chatHistory := take 2 eleven_turns\<rparr>" "''new''"]
  by (simp add: eleven_turns_def)

text \<open>
  C4. When the guard of \<open>sendMessage\<close> lets the turn through (the trimmed input is not
  empty, no request is in flight, an API key is set): if the estimate of the built
  messages exceeds 1000, the call ends before any request, and all it changes is the
  page, which shows the error message \<open>CLEAR CHAT\<close>; the live history, the object store
  and the request log are as before. Otherwise the user turn is appended to the live
  history, the chatbot is loading and the built messages are sent to the provider.
\<close>

theorem sendMessage_token_window:
  assumes "trim (messageInput st) \<noteq> []" and "\<not> isLoading st"
    and "apiKey st = Some k" and "k \<noteq> []"
  shows "(estimateTokens (js_of_msgs (buildMessages st (trim (messageInput st)))) > 1000 \<longrightarrow>
            sendMessage_begin now ok st =
              (st\<lparr>chatMessages := chatMessages st @ [\<lparr>role = ''error'', content = ''CLEAR CHAT''\<rparr>]\<rparr>,
               TooLong))
       \<and> (\<not> estimateTokens (js_of_msgs (buildMessages st (trim (messageInput st)))) > 1000 \<longrightarrow>
            snd (sendMessage_begin now ok st) = Awaiting
            \<and> requests (fst (sendMessage_begin now ok st)) =
                requests st @ [(currentModel st, buildMessages st (trim (messageInput st)))]
            \<and> chatHistory (fst (sendMessage_begin now ok st)) =
                chatHistory st @ [\<lparr>role = ''user'', content = trim (messageInput st)\<rparr>]
            \<and> isLoading (fst (sendMessage_begin now ok st)))"
  using assms
  by (simp add: sendMessage_begin_def Let_def addMessage_error setLoading_def
      chatHistory_addMessage addMessage_def addRecordToDb_def)

theorem sendMessage_token_window_witness:
  "estimateTokens (js_of_msgs (buildMessages
       (example_state\<lparr>chatHistory := long_history, messageInput := '' hi ''\<rparr>) ''hi'')) > 1000
   \<and> sendMessage_begin 7 True (example_state\<lparr>chatHistory := long_history, messageInput := '' hi ''\<rparr>) =
       (example_state\<lparr>chatHistory := long_history, messageInput := '' hi '',
          chatMessages := [\<lparr>role = ''error'', content = ''CLEAR CHAT''\<rparr>]\<rparr>, TooLong)
   \<and> \<not> estimateTokens (js_of_msgs (buildMessages
       (example_state\<lparr>messageInput := '' hi ''\<rparr>) ''hi'')) > 1000
   \<and> snd (sendMessage_begin 7 True (example_state\<lparr>messageInput := '' hi ''\<rparr>)) = Awaiting
   \<and> chatHistory (fst (sendMessage_begin 7 True (example_state\<lparr>messageInput := '' hi ''\<rparr>))) =
       [\<lparr>role = ''user'', content = ''hi''\<rparr>]"
proof -
  have big: "estimateTokens (js_of_msgs (buildMessages
       (example_state\<lparr>chatHistory := long_history, messageInput := '' hi ''\<rparr>) ''hi'')) = 1014"
    by (simp add: estimateTokens_msgs total_chars_long)
  have small: "estimateTokens (js_of_msgs (buildMessages
       (example_state\<lparr>messageInput := '' hi ''\<rparr>) ''hi'')) = 14"
    by (simp add: estimateTokens_msgs total_chars_short)
  have k: "apiKey (example_state\<lparr>chatHistory := long_history, messageInput := '' hi ''\<rparr>) = Some ''sk-demo''"
    "apiKey (example_state\<lparr>messageInput := '' hi ''\<rparr>) = Some ''sk-demo''"
    "\<not> isLoading (example_state\<lparr>chatHistory := long_history, messageInput := '' hi ''\<rparr>)"
    "\<not> isLoading (example_state\<lparr>messageInput := '' hi ''\<rparr>)"
    "chatMessages example_state = []" "chatHistory example_state = []"
    by (simp_all add: example_state_def)
  show ?thesis
    using sendMessage_token_window
      [of "example_state\<lparr>chatHistory := long_history, messageInput := '' hi ''\<rparr>" "''sk-demo''" 7 True]
      sendMessage_token_window
      [of "example_state\<lparr>messageInput := '' hi ''\<rparr>" "''sk-demo''" 7 True]
    by (simp add: trim_hi big small k)
qed

text \<open>
  C5. The promise of \<open>readAllSessions\<close>, when the traversal runs to its end, is resolved
  with the reconstruction as the specification words it: the scan grouped by session in
  first-seen order, each group sorted by timestamp with ties in scan order, the groups
  sorted descending by the timestamp of their first record. Each group of the result is
  sorted by timestamp and keeps the scan order among records of equal timestamp, and
  the group list is descending. In particular, with the database open, the store empty
  and a clock that does not go back, appending (user, hi) and then (assistant, hello)
  gives one session view, under the current session identifier, with these two records
  in this order.
\<close>

theorem readAllSessions_reconstruct:
  "(db st \<longrightarrow> readAllSessions (Started None) st = Resolved (reconstruct_spec (chat_records st)))
   \<and> map sv_sessionId (map (group_of scan) (first_seen (map r_sessionId scan))) =
       first_seen (map r_sessionId scan)
   \<and> (\<forall>s\<in>set (reconstruct_spec scan).
         sorted (map timestamp (records s))
         \<and> (\<forall>t. filter (\<lambda>r. timestamp r = t) (records s) =
                 filter (\<lambda>r. timestamp r = t) (filter (\<lambda>r. r_sessionId r = sv_sessionId s) scan)))
   \<and> sorted (map (\<lambda>s. - timestamp (hd (records s))) (reconstruct_spec scan))
   \<and> (db st \<and> chat_records st = [] \<and> t1 \<le> t2 \<longrightarrow>
        readAllSessions (Started None)
          (addMessage ''assistant'' ''hello'' t2 True (addMessage ''user'' ''hi'' t1 True st)) =
        Resolved
          [\<lparr>sv_sessionId = sessionId st,
            records =
              [\<lparr>rid = next_id st, r_sessionId = sessionId st, timestamp = t1,
                r_role = ''user'', r_content = ''hi'', model = currentModel st\<rparr>,
               \<lparr>rid = Suc (next_id st), r_sessionId = sessionId st, timestamp = t2,
                r_role = ''assistant'', r_content = ''hello'', model = currentModel st\<rparr>]\<rparr>])"
proof -
  have a: "db st \<longrightarrow> readAllSessions (Started None) st = Resolved (reconstruct_spec (chat_records st))" for st
    by (simp add: readAllSessions_complete)
  have b: "map sv_sessionId (map (group_of scan) (first_seen (map r_sessionId scan))) =
       first_seen (map r_sessionId scan)"
    by (simp add: comp_def group_of_def)
  have c: "sorted (map timestamp (records s))
         \<and> (\<forall>t. filter (\<lambda>r. timestamp r = t) (records s) =
                 filter (\<lambda>r. timestamp r = t) (filter (\<lambda>r. r_sessionId r = sv_sessionId s) scan))"
    if "s \<in> set (reconstruct_spec scan)" for s
  proof -
    from reconstruct_spec_member [OF that]
    have r: "records s = sort_key timestamp (filter (\<lambda>r. r_sessionId r = sv_sessionId s) scan)"
      by (metis group_of_def session_view.select_convs(2))
    show ?thesis
      unfolding r by (simp add: sort_key_stable)
  qed
  have d: "sorted (map (\<lambda>s. - timestamp (hd (records s))) (reconstruct_spec scan))"
    by (simp add: reconstruct_spec_def)
  have e: "readAllSessions (Started None)
          (addMessage ''assistant'' ''hello'' t2 True (addMessage ''user'' ''hi'' t1 True st)) =
        Resolved
          [\<lparr>sv_sessionId = sessionId st,
            records =
              [\<lparr>rid = next_id st, r_sessionId = sessionId st, timestamp = t1,
                r_role = ''user'', r_content = ''hi'', model = currentModel st\<rparr>,
               \<lparr>rid = Suc (next_id st), r_sessionId = sessionId st, timestamp = t2,
                r_role = ''assistant'', r_content = ''hello'', model = currentModel st\<rparr>]\<rparr>]"
    if "db st" "chat_records st = []" "t1 \<le> t2"
  proof -
    let ?st2 = "addMessage ''assistant'' ''hello'' t2 True (addMessage ''user'' ''hi'' t1 True st)"
    have db2: "db ?st2"
      using that by (simp add: addMessage_def addRecordToDb_def Let_def)
    have recs: "chat_records ?st2 =
       [\<lparr>rid = next_id st, r_sessionId = sessionId st, timestamp = t1,
                r_role = ''user'', r_content = ''hi'', model = currentModel st\<rparr>,
        \<lparr>rid = Suc (next_id st), r_sessionId = sessionId st, timestamp = t2,
                r_role = ''assistant'', r_content = ''hello'', model = currentModel st\<rparr>]"
      using that by (simp add: addMessage_def addRecordToDb_def Let_def)
    show ?thesis
      using a [of ?st2] db2 that(3)
      by (simp add: recs reconstruct_spec_def group_of_def)
  qed
  from a b c d e show ?thesis by blast
qed

theorem readAllSessions_reconstruct_witness:
  "db (example_state\<lparr>db := True, chat_records := two_sessions\<rparr>)
   \<and> readAllSessions (Started None) (example_state\<lparr>db := True, chat_records := two_sessions\<rparr>) =
       Resolved
         [\<lparr>sv_sessionId = ''session-5'', records = [two_sessions ! 2, two_sessions ! 1]\<rparr>,
          \<lparr>sv_sessionId = ''session-1'', records = [two_sessions ! 0]\<rparr>]
   \<and> \<lparr>sv_sessionId = ''session-5'', records = [two_sessions ! 2, two_sessions ! 1]\<rparr>
       \<in> set (reconstruct_spec two_sessions)
   \<and> sorted (map timestamp [two_sessions ! 2, two_sessions ! 1])
   \<and> db (initDatabase_onsuccess example_state)
   \<and> chat_records (initDatabase_onsuccess example_state) = []
   \<and> (10::int) \<le> 20
   \<and> readAllSessions (Started None)
        (addMessage ''assistant'' ''hello'' 20 True
          (addMessage ''user'' ''hi'' 10 True (initDatabase_onsuccess example_state))) =
      Resolved
        [\<lparr>sv_sessionId = ''session-1'',
          records =
            [\<lparr>rid = 1, r_sessionId = ''session-1'', timestamp = 10,
              r_role = ''user'', r_content = ''hi'', model = default_model\<rparr>,
             \<lparr>rid = 2, r_sessionId = ''session-1'', timestamp = 20,
              r_role = ''assistant'', r_content = ''hello'', model = default_model\<rparr>]\<rparr>]"
proof -
  have s1: "db (example_state\<lparr>db := True, chat_records := two_sessions\<rparr>)"
    "chat_records (example_state\<lparr>db := True, chat_records := two_sessions\<rparr>) = two_sessions"
    by simp_all
  have s2: "db (initDatabase_onsuccess example_state)"
    "chat_records (initDatabase_onsuccess example_state) = []"
    "sessionId (initDatabase_onsuccess example_state) = ''session-1''"
    "next_id (initDatabase_onsuccess example_state) = 1"
    "currentModel (initDatabase_onsuccess example_state) = default_model"
    by (simp_all add: initDatabase_onsuccess_def example_state_def)
  have m: "\<lparr>sv_sessionId = ''session-5'', records = [two_sessions ! 2, two_sessions ! 1]\<rparr>
       \<in> set (reconstruct_spec two_sessions)"
    by (simp add: reconstruct_two_sessions)
  show ?thesis
    using readAllSessions_reconstruct
      [of "example_state\<lparr>db := True, chat_records := two_sessions\<rparr>" two_sessions 10 20]
      readAllSessions_reconstruct
      [of "initDatabase_onsuccess example_state" two_sessions 10 20] m
    by (simp add: s1 s2 reconstruct_two_sessions)
qed

text \<open>
  C6, as the code has it. A chatbot that loads the snapshot written by
  \<open>saveToDatabase\<close> gets the saved history, and the saved model identifier when that is
  not the empty string; for the empty string, which is falsy, it gets the default model
  identifier. When the slot is absent, empty or does not parse, \<open>loadFromDatabase\<close>
  returns with the state as it was, and the constructor ends with the empty history and
  the default model identifier.
\<close>

theorem snapshot_roundtrip:
  "(ls_data st' = ls_data (saveToDatabase ts st) \<and> currentModel st \<noteq> [] \<longrightarrow>
      (\<exists>st''. loadFromDatabase st' = Some st'' \<and> chatHistory st'' = chatHistory st
          \<and> currentModel st'' = currentModel st))
   \<and> (ls_data st' = ls_data (saveToDatabase ts st) \<and> currentModel st = [] \<longrightarrow>
      (\<exists>st''. loadFromDatabase st' = Some st'' \<and> chatHistory st'' = chatHistory st
          \<and> currentModel st'' = default_model))
   \<and> (ls_data w = None \<or> ls_data w = Some EmptyText \<or> ls_data w = Some BadText \<longrightarrow>
        loadFromDatabase w = Some w
        \<and> (\<exists>st. new_chatbot key now w = Some st \<and> chatHistory st = []
              \<and> currentModel st = default_model))"
proof -
  have a: "ls_data st' = ls_data (saveToDatabase ts st) \<and> currentModel st \<noteq> [] \<longrightarrow>
      (\<exists>st''. loadFromDatabase st' = Some st'' \<and> chatHistory st'' = chatHistory st
          \<and> currentModel st'' = currentModel st)"
    by (simp add: load_saved)
  have b: "ls_data st' = ls_data (saveToDatabase ts st) \<and> currentModel st = [] \<longrightarrow>
      (\<exists>st''. loadFromDatabase st' = Some st'' \<and> chatHistory st'' = chatHistory st
          \<and> currentModel st'' = default_model)"
    by (simp add: load_saved)
  have c: "ls_data w = None \<or> ls_data w = Some EmptyText \<or> ls_data w = Some BadText \<longrightarrow>
        loadFromDatabase w = Some w
        \<and> (\<exists>st. new_chatbot key now w = Some st \<and> chatHistory st = []
              \<and> currentModel st = default_model)"
    using load_absent [of w] new_chatbot_fallback [of w key now] by blast
  from a b c show ?thesis by blast
qed

theorem snapshot_roundtrip_witness:
  "map_option chatHistory (new_chatbot (Some ''sk-demo'') 9 saved_example) =
     Some [\<lparr>role = ''user'', content = ''hi''\<rparr>, \<lparr>role = ''assistant'', content = ''hello''\<rparr>]
   \<and> map_option currentModel (new_chatbot (Some ''sk-demo'') 9 saved_example) = Some ''openai/gpt-4o''
   \<and> ls_data (example_state\<lparr>ls_data := Some BadText\<rparr>) = Some BadText
   \<and> map_option chatHistory (new_chatbot (Some ''sk-demo'') 9 (example_state\<lparr>ls_data := Some BadText\<rparr>))
       = Some []
   \<and> map_option currentModel (new_chatbot (Some ''sk-demo'') 9 (example_state\<lparr>ls_data := Some BadText\<rparr>))
       = Some default_model"
proof -
  let ?src = "example_state\<lparr>chatHistory := [\<lparr>role = ''user'', content = ''hi''\<rparr>,
                                       \<lparr>role = ''assistant'', content = ''hello''\<rparr>],
                      currentModel := ''openai/gpt-4o''\<rparr>"
  let ?boot = "saved_example\<lparr>apiKey := Some ''sk-demo'',
                   currentModel := default_model, chatHistory := [], isLoading := False,
                   db := False, sessionId := ''session-1'', chatMessages := [], messageInput := [],
                   requests := [], alerts := [], historyContent := None,
                   historyShown := False\<rparr>"
  have n: "new_chatbot (Some ''sk-demo'') 9 saved_example = loadFromDatabase ?boot"
    by (simp add: new_chatbot_def saved_example_def saveToDatabase_def example_state_def Let_def)
  have l: "ls_data ?boot = ls_data (saveToDatabase ''2025-01-01T00:00:00.000Z'' ?src)"
    by (simp add: saved_example_def saveToDatabase_def)
  have m: "currentModel ?src \<noteq> []" "currentModel ?src = ''openai/gpt-4o''"
    "chatHistory ?src = [\<lparr>role = ''user'', content = ''hi''\<rparr>, \<lparr>role = ''assistant'', content = ''hello''\<rparr>]"
    by simp_all
  have bad: "ls_data (example_state\<lparr>ls_data := Some BadText\<rparr>) = Some BadText"
    by simp
  from snapshot_roundtrip [of ?boot "''2025-01-01T00:00:00.000Z''" ?src
      "example_state\<lparr>ls_data := Some BadText\<rparr>" "Some ''sk-demo''" 9] l m bad
  show ?thesis
    unfolding n by auto
qed

text \<open>
  C6 as stated fails for the empty model identifier: saved with the empty history, it
  is loaded as the default model identifier.
\<close>

theorem snapshot_roundtrip_counterexample:
  "map_option currentModel
     (loadFromDatabase (saveToDatabase ''2025-01-01T00:00:00.000Z''
        (example_state\<lparr>currentModel := []\<rparr>))) =
   Some ''deepseek/deepseek-r1:free''
   \<and> currentModel (example_state\<lparr>currentModel := []\<rparr>) \<noteq> ''deepseek/deepseek-r1:free''"
  by (simp add: loadFromDatabase_def saveToDatabase_def default_model_def example_state_def)

text \<open>
  C7. On a list of messages \<open>estimateTokens\<close> is the total length of the contents
  divided by 4 and rounded up: it is the least integer whose fourfold is not below the
  total. It is 0 on the empty list, it does not decrease when the total length grows,
  and whenever the body of its \<open>try\<close> block fails, it returns 0.
\<close>

theorem estimateTokens_ceiling:
  "estimateTokens (js_of_msgs ms) = \<lceil>real (total_chars ms) / 4\<rceil>
   \<and> 4 * (estimateTokens (js_of_msgs ms) - 1) < int (total_chars ms)
   \<and> int (total_chars ms) \<le> 4 * estimateTokens (js_of_msgs ms)
   \<and> estimateTokens (js_of_msgs []) = 0
   \<and> estimateTokens (Messages []) = 0
   \<and> (total_chars ms \<le> total_chars ms' \<longrightarrow>
        estimateTokens (js_of_msgs ms) \<le> estimateTokens (js_of_msgs ms'))
   \<and> (estimateTokens_try x = Inl e \<longrightarrow> estimateTokens x = 0)"
proof -
  have a: "estimateTokens (js_of_msgs ms) = (int (total_chars ms) + 3) div 4" for ms
    by (rule estimateTokens_div)
  have b: "4 * (estimateTokens (js_of_msgs ms) - 1) < int (total_chars ms)"
    "int (total_chars ms) \<le> 4 * estimateTokens (js_of_msgs ms)"
    unfolding a by presburger+
  have c: "estimateTokens (js_of_msgs []) = 0" "estimateTokens (Messages []) = 0"
    by (simp_all add: estimateTokens_def js_of_msgs_def)
  have d: "total_chars ms \<le> total_chars ms' \<longrightarrow>
        estimateTokens (js_of_msgs ms) \<le> estimateTokens (js_of_msgs ms')"
    unfolding a by (simp add: zdiv_mono1)
  have e: "estimateTokens_try x = Inl e \<longrightarrow> estimateTokens x = 0"
    by (simp add: estimateTokens_def)
  show ?thesis
    using b c d e by (simp add: estimateTokens_msgs)
qed

theorem estimateTokens_ceiling_witness:
  "total_chars [\<lparr>role = ''user'', content = ''hi''\<rparr>]
     \<le> total_chars [\<lparr>role = ''assistant'', content = ''hello''\<rparr>]
   \<and> estimateTokens (js_of_msgs [\<lparr>role = ''user'', content = ''hi''\<rparr>]) = 1
   \<and> estimateTokens (js_of_msgs [\<lparr>role = ''assistant'', content = ''hello''\<rparr>]) = 2
   \<and> estimateTokens_try (Messages [Obj (Some ''hi''), Nullish]) = Inl TypeError
   \<and> estimateTokens (Messages [Obj (Some ''hi''), Nullish]) = 0"
proof -
  have v: "estimateTokens (js_of_msgs [\<lparr>role = ''user'', content = ''hi''\<rparr>]) = 1"
    "estimateTokens (js_of_msgs [\<lparr>role = ''assistant'', content = ''hello''\<rparr>]) = 2"
    by (simp_all add: estimateTokens_div total_chars_def)
  show ?thesis
    using v estimateTokens_ceiling
      [of "[\<lparr>role = ''user'', content = ''hi''\<rparr>]"
          "[\<lparr>role = ''assistant'', content = ''hello''\<rparr>]"
          "Messages [Obj (Some ''hi''), Nullish]" TypeError]
    by (simp add: total_chars_def)
qed

text \<open>
  C8. While \<open>this.db\<close> is \<open>null\<close>, a sequence of \<open>addMessage\<close> calls returns with the
  non-error turns appended to the live history and with the store untouched, and
  \<open>showHistory\<close> returns after its alert: it ends neither with a rejection nor with any
  session view.
\<close>

theorem store_unavailable:
  "\<not> db st \<Longrightarrow>
     chatHistory (appendTurns calls st) =
       chatHistory st @ map turn_msg (filter (\<lambda>call. \<not> error_turn call) calls)
     \<and> chat_records (appendTurns calls st) = chat_records st
     \<and> \<not> db (appendTurns calls st)
     \<and> showHistory sc (appendTurns calls st) =
         ((appendTurns calls st)
            \<lparr>alerts := alerts (appendTurns calls st) @
               [''History unavailable (database not initialized).'']\<rparr>, Unavailable)
     \<and> listed (snd (showHistory sc (appendTurns calls st))) = []"
  using appendTurns_no_db [of st calls]
  by (simp add: chatHistory_appendTurns showHistory_def)

theorem store_unavailable_witness:
  "\<not> db example_state
   \<and> chatHistory (appendTurns [(''user'', ''hi'', 10, True), (''error'', ''Error: x'', 15, True),
         (''assistant'', ''hello'', 20, True)] example_state) =
       [\<lparr>role = ''user'', content = ''hi''\<rparr>, \<lparr>role = ''assistant'', content = ''hello''\<rparr>]
   \<and> chat_records (appendTurns [(''user'', ''hi'', 10, True), (''error'', ''Error: x'', 15, True),
         (''assistant'', ''hello'', 20, True)] example_state) = []
   \<and> listed (snd (showHistory (Started None) (appendTurns [(''user'', ''hi'', 10, True),
         (''error'', ''Error: x'', 15, True), (''assistant'', ''hello'', 20, True)] example_state))) = []"
proof -
  have e: "\<not> db example_state" "chatHistory example_state = []" "chat_records example_state = []"
    by (simp_all add: example_state_def)
  from store_unavailable [OF e(1), of "[(''user'', ''hi'', 10, True),
      (''error'', ''Error: x'', 15, True), (''assistant'', ''hello'', 20, True)]" "Started None"]
  show ?thesis
    by (simp add: e turn_msg_def error_turn_def)
qed

text \<open>
  C9. If the trimmed input is empty, or a request is in flight, or no API key is set
  (\<open>null\<close> or the empty string), \<open>sendMessage\<close> returns at once with the whole state,
  so also the live history, the snapshot slot and the object store, unchanged.
\<close>

theorem sendMessage_guard:
  "trim (messageInput st) = [] \<or> isLoading st \<or> apiKey st = None \<or> apiKey st = Some [] \<Longrightarrow>
   sendMessage_begin now ok st = (st, Returned)"
  by (simp add: sendMessage_begin_def Let_def)

theorem sendMessage_guard_witness:
  "trim (messageInput (example_state\<lparr>messageInput := ''   ''\<rparr>)) = []
   \<and> sendMessage_begin 7 True (example_state\<lparr>messageInput := ''   ''\<rparr>) =
       (example_state\<lparr>messageInput := ''   ''\<rparr>, Returned)
   \<and> isLoading (example_state\<lparr>messageInput := '' hi '', isLoading := True\<rparr>)
   \<and> sendMessage_begin 7 True (example_state\<lparr>messageInput := '' hi '', isLoading := True\<rparr>) =
       (example_state\<lparr>messageInput := '' hi '', isLoading := True\<rparr>, Returned)
   \<and> apiKey (example_state\<lparr>messageInput := '' hi '', apiKey := None\<rparr>) = None
   \<and> sendMessage_begin 7 True (example_state\<lparr>messageInput := '' hi '', apiKey := None\<rparr>) =
       (example_state\<lparr>messageInput := '' hi '', apiKey := None\<rparr>, Returned)"
  using sendMessage_guard [of "example_state\<lparr>messageInput := ''   ''\<rparr>" 7 True]
    sendMessage_guard [of "example_state\<lparr>messageInput := '' hi '', isLoading := True\<rparr>" 7 True]
    sendMessage_guard [of "example_state\<lparr>messageInput := '' hi '', apiKey := None\<rparr>" 7 True]
  by (simp add: trim_spaces)




end
